theory Spec2Isabelle
  imports Complex_Main "HOL-Library.AList"
begin

unbundle bit_operations_syntax

section \<open>JavaScript primitives used by the pipeline\<close>

text \<open>
  Strings are modelled as \<^typ>\<open>string\<close> (one \<^typ>\<open>char\<close> per code unit, so the model
  covers the 8-bit range). The functions of this section are the library operations the
  sources call, written after ECMA-262: \<open>String.prototype.startsWith\<close>, \<open>indexOf\<close>,
  \<open>replace\<close> with a string pattern and a string replacement (including the \<open>$\<close>
  replacement patterns of \<open>GetSubstitution\<close>), \<open>trim\<close>, \<open>toLowerCase\<close>,
  \<open>Array.prototype.join\<close> and \<open>Number.prototype.toString\<close>.
\<close>

fun startsWith :: "string \<Rightarrow> string \<Rightarrow> bool" where
  "startsWith s [] = True"
| "startsWith [] (p # ps) = False"
| "startsWith (c # cs) (p # ps) = (c = p \<and> startsWith cs ps)"

text \<open>\<open>str.indexOf(pat)\<close>: the position of the first occurrence, \<open>None\<close> for \<open>-1\<close>.\<close>

fun indexOf :: "string \<Rightarrow> string \<Rightarrow> nat option" where
  "indexOf [] pat = (if pat = [] then Some 0 else None)"
| "indexOf (c # cs) pat =
     (if startsWith (c # cs) pat then Some 0 else map_option Suc (indexOf cs pat))"

text \<open>
  \<open>GetSubstitution\<close> for a string pattern (no captures, no named groups): \<open>$$\<close> is a
  dollar sign, \<open>$&\<close> the matched text, \<open>$`\<close> the text before the match, \<open>$'\<close> the
  text after it; every other character, also a \<open>$\<close> before a digit or \<open><\<close>, stands for
  itself.
\<close>

fun getSubstitution :: "string \<Rightarrow> string \<Rightarrow> string \<Rightarrow> string \<Rightarrow> string" where
  "getSubstitution matched preceding following [] = []"
| "getSubstitution matched preceding following [c] = [c]"
| "getSubstitution matched preceding following (c # d # rest) =
     (if c = CHR ''$'' then
        (if d = CHR ''$'' then CHR ''$'' # getSubstitution matched preceding following rest
         else if d = CHR ''&'' then matched @ getSubstitution matched preceding following rest
         else if d = CHR 0x60 then preceding @ getSubstitution matched preceding following rest
         else if d = CHR 0x27 then following @ getSubstitution matched preceding following rest
         else c # getSubstitution matched preceding following (d # rest))
      else c # getSubstitution matched preceding following (d # rest))"

text \<open>\<open>str.replace(pat, repl)\<close> with strings: only the first occurrence is replaced.\<close>

definition js_replace :: "string \<Rightarrow> string \<Rightarrow> string \<Rightarrow> string" where
  "js_replace str pat repl =
     (case indexOf str pat of
        None \<Rightarrow> str
      | Some p \<Rightarrow>
          (let preceding = take p str; following = drop (p + length pat) str
           in preceding @ getSubstitution pat preceding following repl @ following))"

text \<open>White space and line terminators of the 8-bit range below \<open>0x80\<close>.\<close>

definition isWhiteSpace :: "char \<Rightarrow> bool" where
  "isWhiteSpace c \<longleftrightarrow> c \<in> set [CHR 0x09, CHR 0x0A, CHR 0x0B, CHR 0x0C, CHR 0x0D, CHR 0x20]"

definition trim :: "string \<Rightarrow> string" where
  "trim s = rev (dropWhile isWhiteSpace (rev (dropWhile isWhiteSpace s)))"

text \<open>\<open>toLowerCase\<close> on the letters \<open>A\<close> to \<open>Z\<close>; every other code unit is kept.\<close>

definition toLowerCaseChar :: "char \<Rightarrow> char" where
  "toLowerCaseChar c =
     (let n = (of_char c :: nat) in if 65 \<le> n \<and> n \<le> 90 then char_of (n + 32) else c)"

definition toLowerCase :: "string \<Rightarrow> string" where
  "toLowerCase s = map toLowerCaseChar s"

text \<open>\<open>parts.join(sep)\<close> on an array of strings.\<close>

fun join :: "string \<Rightarrow> string list \<Rightarrow> string" where
  "join sep [] = []"
| "join sep [x] = x"
| "join sep (x # y # ys) = x @ sep @ join sep (y # ys)"

text \<open>Digits in a radix up to 16, and \<open>n.toString(radix)\<close> on an integer.\<close>

definition digitChar :: "nat \<Rightarrow> char" where
  "digitChar d = (if d < 16 then ''0123456789abcdef'' ! d else CHR ''?'')"

function natToString :: "nat \<Rightarrow> nat \<Rightarrow> string" where
  "natToString radix n =
     (if radix < 2 \<or> n < radix then [digitChar n]
      else natToString radix (n div radix) @ [digitChar (n mod radix)])"
  by pat_completeness auto
termination
  by (relation "measure (\<lambda>(radix, n). n)") auto

declare natToString.simps [simp del]

definition toStringRadix :: "nat \<Rightarrow> int \<Rightarrow> string" where
  "toStringRadix radix i =
     (if i < 0 then CHR ''-'' # natToString radix (nat (- i)) else natToString radix (nat i))"

definition toString :: "int \<Rightarrow> string" where
  "toString i = toStringRadix 10 i"




section \<open>Values, responses and scripts\<close>

text \<open>
  JavaScript values (\<open>unknown\<close> in the sources): a closed variant type. Numbers are
  integers; an object is the list of its own enumerable properties in insertion order,
  which is the order of \<open>Object.entries\<close>.
\<close>

datatype jsval =
    JUndefined
  | JNull
  | JBool bool
  | JNum int
  | JStr string
  | JArr "jsval list"
  | JObj "(string \<times> jsval) list"

text \<open>\<open>String(v)\<close>; an array is joined with commas, \<open>null\<close> and \<open>undefined\<close> elements empty.\<close>

fun js_String :: "jsval \<Rightarrow> string" where
  "js_String JUndefined = ''undefined''"
| "js_String JNull = ''null''"
| "js_String (JBool b) = (if b then ''true'' else ''false'')"
| "js_String (JNum n) = toString n"
| "js_String (JStr s) = s"
| "js_String (JArr xs) =
     join '','' (map (\<lambda>x. if x = JUndefined \<or> x = JNull then [] else js_String x) xs)"
| "js_String (JObj es) = ''[object Object]''"

text \<open>Truthiness, as \<open>if (v)\<close> tests it.\<close>

fun truthy :: "jsval \<Rightarrow> bool" where
  "truthy JUndefined = False"
| "truthy JNull = False"
| "truthy (JBool b) = b"
| "truthy (JNum n) = (n \<noteq> 0)"
| "truthy (JStr s) = (s \<noteq> [])"
| "truthy (JArr xs) = True"
| "truthy (JObj es) = True"

text \<open>
  \<open>obj.key\<close> on a value that the type of the source says is an object or absent behind
  \<open>?.\<close>: the property, \<open>undefined\<close> when there is none.
\<close>

definition getProp :: "jsval \<Rightarrow> string \<Rightarrow> jsval" where
  "getProp v key =
     (case v of
        JObj es \<Rightarrow> (case map_of es key of Some x \<Rightarrow> x | None \<Rightarrow> JUndefined)
      | _ \<Rightarrow> JUndefined)"

text \<open>\<open>ExpectResult\<close>; an optional field that is absent is \<open>undefined\<close>.\<close>

record ExpectResult =
  passed :: bool
  message :: string
  expected :: jsval
  actual :: jsval

text \<open>
  \<open>RadiusResponse\<close>, with the two auxiliary fields that \<open>execute\<close> attaches
  (\<open>None\<close> while a field is not set).
\<close>

record RadiusResponse =
  status :: int
  statusText :: string
  headers :: "(string \<times> string) list"
  body :: string
  json :: jsval
  timing :: jsval
  request :: jsval
  scriptLogs :: "string list option"
  assertionResults :: "ExpectResult list option"

text \<open>\<open>ResponseContextImpl\<close>: the fields its constructor copies from the response.\<close>

record ResponseContextImpl =
  rc_status :: int
  rc_statusText :: string
  rc_headers :: "(string \<times> string) list"
  rc_body :: string
  rc_json :: jsval

definition ResponseContextImpl :: "RadiusResponse \<Rightarrow> ResponseContextImpl" where
  "ResponseContextImpl response =
     \<lparr>rc_status = status response, rc_statusText = statusText response,
      rc_headers = headers response, rc_body = body response, rc_json = json response\<rparr>"

text \<open>
  What a name of the sandbox object is bound to: \<open>undefined\<close>, one of the host's
  built-ins passed through (\<open>JSON\<close>, \<open>Math\<close>, ...), or an object of this program.
\<close>

datatype binding =
    Undefined
  | Builtin string
  | RadiusObject
  | SafeConsole
  | ResponseObject ResponseContextImpl

text \<open>
  A script is modelled by what it does to the sandbox: a tree of the calls it makes on
  the objects it is given, each call continuing with its result. \<open>Return\<close> is the end of
  the script; \<open>Throw\<close> is an uncaught error, a syntax error or the timeout of
  \<open>runInContext\<close>, with the message that the \<open>catch\<close> block of \<open>executeScript\<close>
  reads from it (\<open>Unknown error\<close> for a thrown value that is not an \<open>Error\<close>). \<open>Log\<close> and \<open>ConsoleLog\<close> carry the
  formatted line, \<open>Expect\<close> the result that the matcher of \<open>ExpectBuilderImpl\<close>
  computed. \<open>Global\<close> reads a name of the sandbox object. A script acts on the host
  only through these calls; writes into objects it was handed are outside the model.
\<close>

datatype script =
    Return
  | Throw string
  | GetVariable string "jsval \<Rightarrow> script"
  | SetVariable string jsval script
  | GetEnv string "string option \<Rightarrow> script"
  | Uuid "string \<Rightarrow> script"
  | Timestamp "int \<Rightarrow> script"
  | Log string script
  | ConsoleLog string script
  | Expect ExpectResult "ExpectResult \<Rightarrow> script"
  | Global string "binding option \<Rightarrow> script"

section \<open>VariableResolver\<close>

subsection \<open>The two regular expressions\<close>

text \<open>
  \<open>VARIABLE_PATTERN_STR\<close> is \<open>\{\{([^}]+)\}\}\<close>. A match at the head of a string is
  \<open>{{\<close>, then the longest run of characters other than \<open>}\<close> (at least one; the run may
  hold \<open>{\<close>), then \<open>}}\<close> right after the run: a shorter run is followed by a character
  that is not \<open>}\<close>, so backtracking finds nothing else. \<open>matchHere\<close> returns capture
  group 1 and the text after the match.
\<close>

definition matchHere :: "string \<Rightarrow> (string \<times> string) option" where
  "matchHere s =
     (case s of
        c1 # c2 # t \<Rightarrow>
          if c1 = CHR ''{'' \<and> c2 = CHR ''{'' then
            (let grp = takeWhile (\<lambda>c. c \<noteq> CHR ''}'') t;
                 r = dropWhile (\<lambda>c. c \<noteq> CHR ''}'') t
             in if grp \<noteq> [] \<and> startsWith r ''}}'' then Some (grp, drop 2 r) else None)
          else None
      | _ \<Rightarrow> None)"

lemma matchHere_shorter: "matchHere s = Some (grp, rest) \<Longrightarrow> length rest < length s"
proof -
  assume a: "matchHere s = Some (grp, rest)"
  then obtain c1 c2 t where s: "s = c1 # c2 # t"
    by (cases s; cases "tl s") (auto simp: matchHere_def)
  from a s have "rest = drop 2 (dropWhile (\<lambda>c. c \<noteq> CHR ''}'') t)"
    by (auto simp: matchHere_def Let_def split: if_splits)
  moreover have "length (dropWhile (\<lambda>c. c \<noteq> CHR ''}'') t) \<le> length t"
    by (rule length_dropWhile_le)
  ultimately show ?thesis using s by simp
qed

text \<open>
  \<open>[...template.matchAll(createVariablePattern())]\<close>: the matches from left to right,
  none overlapping; each is the pair of \<open>match[0]\<close> (the whole placeholder) and
  \<open>match[1]\<close> (the text between the braces).
\<close>

function matchAll :: "string \<Rightarrow> (string \<times> string) list" where
  "matchAll [] = []"
| "matchAll (c # cs) =
     (case matchHere (c # cs) of
        Some (grp, rest) \<Rightarrow> (''{{'' @ grp @ ''}}'', grp) # matchAll rest
      | None \<Rightarrow> matchAll cs)"
  by pat_completeness auto
termination
  by (relation "measure length") (auto dest: matchHere_shorter)

definition hasVariables :: "string \<Rightarrow> bool" where
  "hasVariables str \<longleftrightarrow> matchAll str \<noteq> []"

text \<open>\<open>BUILTIN_PATTERN\<close> is \<open>/^\$(\w+)$/\<close>; the result is capture group 1.\<close>

definition isWordChar :: "char \<Rightarrow> bool" where
  "isWordChar c =
     (let n = (of_char c :: nat)
      in (48 \<le> n \<and> n \<le> 57) \<or> (65 \<le> n \<and> n \<le> 90) \<or> (97 \<le> n \<and> n \<le> 122) \<or> n = 95)"

definition matchBuiltin :: "string \<Rightarrow> string option" where
  "matchBuiltin varName =
     (case varName of
        [] \<Rightarrow> None
      | c # w \<Rightarrow> if c = CHR ''$'' \<and> w \<noteq> [] \<and> list_all isWordChar w then Some w else None)"

subsection \<open>The host: random numbers, clock, environment\<close>

text \<open>
  \<open>Math.random()\<close>, \<open>Date.now()\<close> and \<open>process.env\<close> are read from a record of the
  host that is passed through every function that uses them: the \<open>i\<close>-th call of
  \<open>Math.random()\<close> returns \<open>random h i\<close>, the \<open>i\<close>-th reading of the clock returns
  \<open>now h i\<close>. Doubles are idealised as reals and numbers as integers.
  \<open>Date.prototype.toISOString\<close> is a parameter of the host, and so are the variables
  that \<open>DotEnvSource\<close> loads from a path (\<open>dotenv\<close>), the meaning of a script text
  (\<open>vmScript\<close>) and the network: the \<open>i\<close>-th call of \<open>HttpClient.execute\<close>, on the
  request \<open>r\<close>, returns \<open>http h i r\<close>, and \<open>sent\<close> lists the requests passed to it so
  far. \<open>warnings\<close> are the lines written with \<open>console.warn\<close>.
\<close>

record host =
  random :: "nat \<Rightarrow> real"
  randomCalls :: nat
  now :: "nat \<Rightarrow> int"
  clockReads :: nat
  toISOString :: "int \<Rightarrow> string"
  process_env :: "string \<Rightarrow> string option"
  dotenv :: "string \<Rightarrow> string \<Rightarrow> string option"
  vmScript :: "string \<Rightarrow> script"
  http :: "nat \<Rightarrow> jsval \<Rightarrow> RadiusResponse"
  sent :: "jsval list"
  warnings :: "string list"

definition Math_random :: "host \<Rightarrow> real \<times> host" where
  "Math_random h = (random h (randomCalls h), h\<lparr>randomCalls := Suc (randomCalls h)\<rparr>)"

definition Date_now :: "host \<Rightarrow> int \<times> host" where
  "Date_now h = (now h (clockReads h), h\<lparr>clockReads := Suc (clockReads h)\<rparr>)"

text \<open>\<open>x | 0\<close>: \<open>ToInt32\<close>, truncation toward zero and wrap-around to 32 signed bits.\<close>

definition toInt32 :: "real \<Rightarrow> int" where
  "toInt32 x =
     (let t = (if 0 \<le> x then \<lfloor>x\<rfloor> else \<lceil>x\<rceil>); m = t mod 2 ^ 32
      in if m \<ge> 2 ^ 31 then m - 2 ^ 32 else m)"

subsection \<open>Sources and construction\<close>

text \<open>
  An \<open>IVariableSource\<close> is a name, a priority and a lookup; \<open>get\<close> returns \<open>None\<close> for
  \<open>undefined\<close>. The lookup is a function of the key alone (the promise is dropped).
\<close>

record IVariableSource =
  name :: string
  priority :: int
  get :: "string \<Rightarrow> string option"

record ResolverOptions =
  strict :: "bool option"
  maxDepth :: "int option"

record RequiredResolverOptions =
  strict' :: bool
  maxDepth' :: int

record VariableResolver =
  sources :: "IVariableSource list"
  options :: RequiredResolverOptions

text \<open>
  The constructor: \<open>[...sources].sort((a, b) => b.priority - a.priority)\<close>.
  \<open>Array.prototype.sort\<close> is stable, so the result is the stable sort by descending
  priority, which \<^const>\<open>sort_key\<close> computes for the key \<open>- priority\<close>.
\<close>

definition VariableResolver :: "IVariableSource list \<Rightarrow> ResolverOptions \<Rightarrow> VariableResolver" where
  "VariableResolver srcs opts =
     \<lparr>sources = sort_key (\<lambda>s. - priority s) srcs,
      options = \<lparr>strict' = (case strict opts of None \<Rightarrow> True | Some b \<Rightarrow> b),
                 maxDepth' = (case maxDepth opts of None \<Rightarrow> 10 | Some d \<Rightarrow> d)\<rparr>\<rparr>"

subsection \<open>lookup\<close>

definition lookupName :: "string \<Rightarrow> string" where
  "lookupName nm = (if startsWith nm ''env.'' then drop (length ''env.'') nm else nm)"

fun lookupIn :: "IVariableSource list \<Rightarrow> string \<Rightarrow> string option" where
  "lookupIn [] key = None"
| "lookupIn (source # rest) key =
     (case get source key of Some v \<Rightarrow> Some v | None \<Rightarrow> lookupIn rest key)"

definition lookup :: "VariableResolver \<Rightarrow> string \<Rightarrow> string option" where
  "lookup R nm = lookupIn (sources R) (lookupName nm)"

subsection \<open>Built-in variables\<close>

text \<open>
  \<open>generateUuid\<close>: the callback of \<open>replace(/[xy]/g, ...)\<close> runs once for every \<open>x\<close> and
  \<open>y\<close> of the pattern, from left to right.
\<close>

fun replaceXY :: "host \<Rightarrow> string \<Rightarrow> string \<times> host" where
  "replaceXY h [] = ([], h)"
| "replaceXY h (c # cs) =
     (if c = CHR ''x'' \<or> c = CHR ''y'' then
        (let (x, h1) = Math_random h;
             r = toInt32 (x * 16);
             v = (if c = CHR ''x'' then r else (r AND 3) OR 8);
             (rest, h2) = replaceXY h1 cs
         in (toStringRadix 16 v @ rest, h2))
      else (let (rest, h1) = replaceXY h cs in (c # rest, h1)))"

definition generateUuid :: "host \<Rightarrow> string \<times> host" where
  "generateUuid h = replaceXY h ''xxxxxxxx-xxxx-4xxx-yxxx-xxxxxxxxxxxx''"

definition resolveBuiltin :: "host \<Rightarrow> string \<Rightarrow> string option \<times> host" where
  "resolveBuiltin h nm =
     (let n = toLowerCase nm in
      if n = ''uuid'' then (let (u, h1) = generateUuid h in (Some u, h1))
      else if n = ''timestamp'' then (let (t, h1) = Date_now h in (Some (toString t), h1))
      else if n = ''isodate'' then (let (t, h1) = Date_now h in (Some (toISOString h t), h1))
      else if n = ''randomint'' then
        (let (x, h1) = Math_random h in (Some (toString \<lfloor>x * 1000000\<rfloor>), h1))
      else (None, h))"

subsection \<open>resolveWithInfo and resolve\<close>

text \<open>A thrown \<open>Error\<close> is a value carrying its message.\<close>

datatype error = Error string

record ResolveResult =
  val :: string
  unresolved :: "string list"

text \<open>
  The first \<open>if\<close> of the loop body: the value of a built-in when the name matches
  \<open>BUILTIN_PATTERN\<close> and \<open>resolveBuiltin\<close> knows it, \<open>None\<close> when the loop body goes on
  to the sources.
\<close>

definition tryBuiltin :: "host \<Rightarrow> string \<Rightarrow> string option \<times> host" where
  "tryBuiltin h varName =
     (case matchBuiltin varName of
        None \<Rightarrow> (None, h)
      | Some b \<Rightarrow> resolveBuiltin h b)"

text \<open>
  The body of the \<open>for\<close> loop of \<open>resolveWithInfo\<close>, for one match. The loop state is
  \<open>result\<close>, \<open>unresolved\<close> and the host; \<open>nested\<close> is the recursive call
  \<open>this.resolveWithInfo(value, depth + 1)\<close>.
\<close>

definition processMatch ::
  "(host \<Rightarrow> string \<Rightarrow> error + ResolveResult \<times> host) \<Rightarrow> VariableResolver \<Rightarrow>
   string \<times> string \<Rightarrow> string \<times> string list \<times> host \<Rightarrow> error + string \<times> string list \<times> host" where
  "processMatch nested R m st =
     (case (m, st) of ((fullMatch, group1), (result, unres, h)) \<Rightarrow>
       (let varName = trim group1 in
        case tryBuiltin h varName of
          (Some builtinValue, h1) \<Rightarrow> Inr (js_replace result fullMatch builtinValue, unres, h1)
        | (None, h1) \<Rightarrow>
            (case lookup R varName of
               Some v \<Rightarrow>
                 if hasVariables v then
                   (case nested h1 v of
                      Inl e \<Rightarrow> Inl e
                    | Inr (nestedResult, h2) \<Rightarrow>
                        Inr (js_replace result fullMatch (val nestedResult),
                             unres @ unresolved nestedResult, h2))
                 else Inr (js_replace result fullMatch v, unres, h1)
             | None \<Rightarrow> Inr (result, unres @ [varName], h1))))"

fun processMatches ::
  "(host \<Rightarrow> string \<Rightarrow> error + ResolveResult \<times> host) \<Rightarrow> VariableResolver \<Rightarrow>
   (string \<times> string) list \<Rightarrow> string \<times> string list \<times> host \<Rightarrow> error + string \<times> string list \<times> host" where
  "processMatches nested R [] st = Inr st"
| "processMatches nested R (m # ms) st =
     (case processMatch nested R m st of
        Inl e \<Rightarrow> Inl e
      | Inr st' \<Rightarrow> processMatches nested R ms st')"

definition depthExceeded :: "int \<Rightarrow> error" where
  "depthExceeded d =
     Error (''Variable resolution exceeded max depth ('' @ toString d @ ''). ''
            @ ''Check for circular references.'')"

function resolveWithInfo ::
  "VariableResolver \<Rightarrow> host \<Rightarrow> string \<Rightarrow> nat \<Rightarrow> error + ResolveResult \<times> host" where
  "resolveWithInfo R h template depth =
     (if int depth > maxDepth' (options R) then Inl (depthExceeded (maxDepth' (options R)))
      else
        (case processMatches (\<lambda>h' v. resolveWithInfo R h' v (depth + 1)) R
                (matchAll template) (template, [], h) of
           Inl e \<Rightarrow> Inl e
         | Inr (result, unres, h') \<Rightarrow> Inr (\<lparr>val = result, unresolved = unres\<rparr>, h')))"
  by pat_completeness auto
termination
  by (relation "measure (\<lambda>(R, h, template, depth). nat (maxDepth' (options R) + 1 - int depth))")
     auto

declare resolveWithInfo.simps [simp del]

definition resolve :: "VariableResolver \<Rightarrow> host \<Rightarrow> string \<Rightarrow> error + string \<times> host" where
  "resolve R h template =
     (case resolveWithInfo R h template 0 of
        Inl e \<Rightarrow> Inl e
      | Inr (result, h') \<Rightarrow>
          if strict' (options R) \<and> length (unresolved result) > 0
          then Inl (Error (''Unresolved variables: '' @ join '', '' (unresolved result)))
          else Inr (val result, h'))"

subsection \<open>resolveObject\<close>

text \<open>
  \<open>resolveObject\<close> walks a value: strings are resolved, arrays and objects rebuilt
  with the same keys, everything else is returned as it is. The elements of an array
  are resolved from left to right (the interleaving of \<open>Promise.all\<close> is not modelled);
  a thrown error ends the walk.
\<close>

fun resolveObject :: "VariableResolver \<Rightarrow> host \<Rightarrow> jsval \<Rightarrow> error + jsval \<times> host"
  and resolveItems :: "VariableResolver \<Rightarrow> host \<Rightarrow> jsval list \<Rightarrow> error + jsval list \<times> host"
  and resolveEntries ::
    "VariableResolver \<Rightarrow> host \<Rightarrow> (string \<times> jsval) list \<Rightarrow> error + (string \<times> jsval) list \<times> host"
where
  "resolveObject R h JNull = Inr (JNull, h)"
| "resolveObject R h JUndefined = Inr (JUndefined, h)"
| "resolveObject R h (JStr s) =
     (case resolve R h s of Inl e \<Rightarrow> Inl e | Inr (s', h') \<Rightarrow> Inr (JStr s', h'))"
| "resolveObject R h (JArr xs) =
     (case resolveItems R h xs of Inl e \<Rightarrow> Inl e | Inr (xs', h') \<Rightarrow> Inr (JArr xs', h'))"
| "resolveObject R h (JObj es) =
     (case resolveEntries R h es of Inl e \<Rightarrow> Inl e | Inr (es', h') \<Rightarrow> Inr (JObj es', h'))"
| "resolveObject R h (JBool b) = Inr (JBool b, h)"
| "resolveObject R h (JNum n) = Inr (JNum n, h)"
| "resolveItems R h [] = Inr ([], h)"
| "resolveItems R h (x # xs) =
     (case resolveObject R h x of
        Inl e \<Rightarrow> Inl e
      | Inr (x', h1) \<Rightarrow>
          (case resolveItems R h1 xs of
             Inl e \<Rightarrow> Inl e
           | Inr (xs', h2) \<Rightarrow> Inr (x' # xs', h2)))"
| "resolveEntries R h [] = Inr ([], h)"
| "resolveEntries R h ((k, v) # es) =
     (case resolveObject R h v of
        Inl e \<Rightarrow> Inl e
      | Inr (v', h1) \<Rightarrow>
          (case resolveEntries R h1 es of
             Inl e \<Rightarrow> Inl e
           | Inr (es', h2) \<Rightarrow> Inr ((k, v') # es', h2)))"

section \<open>SessionManager\<close>

text \<open>
  A \<open>Map<string, unknown>\<close> is the list of its entries in insertion order: \<open>set\<close> on
  a key that is present replaces the value in place, on a new key appends the entry
  (\<^const>\<open>AList.update\<close>); \<open>get\<close> on a key that is absent is \<open>undefined\<close>.
\<close>

definition Map_get :: "(string \<times> jsval) list \<Rightarrow> string \<Rightarrow> jsval" where
  "Map_get m key = (case map_of m key of None \<Rightarrow> JUndefined | Some v \<Rightarrow> v)"

definition Map_set :: "(string \<times> jsval) list \<Rightarrow> string \<Rightarrow> jsval \<Rightarrow> (string \<times> jsval) list" where
  "Map_set m key v = AList.update key v m"

text \<open>\<open>for (const [key, value] of Object.entries(vars)) map.set(key, value)\<close>.\<close>

definition setEntries :: "(string \<times> jsval) list \<Rightarrow> (string \<times> jsval) list \<Rightarrow> (string \<times> jsval) list" where
  "setEntries m vars = fold (\<lambda>(key, v) m'. Map_set m' key v) vars m"

record SessionManagerOptions =
  initialVariables :: "(string \<times> jsval) list option"
  optPriority :: "int option"

record SessionManager =
  variables :: "(string \<times> jsval) list"
  sessionPriority :: int

definition SessionManager :: "SessionManagerOptions \<Rightarrow> SessionManager" where
  "SessionManager opts =
     \<lparr>variables = (case initialVariables opts of None \<Rightarrow> [] | Some vars \<Rightarrow> setEntries [] vars),
      sessionPriority = (case optPriority opts of None \<Rightarrow> 500 | Some p \<Rightarrow> p)\<rparr>"

definition SessionManager_get :: "SessionManager \<Rightarrow> string \<Rightarrow> jsval" where
  "SessionManager_get s key = Map_get (variables s) key"

definition SessionManager_set :: "SessionManager \<Rightarrow> string \<Rightarrow> jsval \<Rightarrow> SessionManager" where
  "SessionManager_set s key v = s\<lparr>variables := Map_set (variables s) key v\<rparr>"

definition getAll :: "SessionManager \<Rightarrow> (string \<times> jsval) list" where
  "getAll s = variables s"

definition merge :: "SessionManager \<Rightarrow> (string \<times> jsval) list \<Rightarrow> SessionManager" where
  "merge s vars = s\<lparr>variables := setEntries (variables s) vars\<rparr>"

text \<open>
  \<open>SessionVariableSource\<close> holds a reference to the session and reads it at every
  \<open>get\<close>; the model builds the source from the session as it is when the lookup runs.
\<close>

definition SessionVariableSource_get :: "SessionManager \<Rightarrow> string \<Rightarrow> string option" where
  "SessionVariableSource_get s key =
     (let v = SessionManager_get s key in if v \<noteq> JUndefined then Some (js_String v) else None)"

definition getVariableSource :: "SessionManager \<Rightarrow> IVariableSource" where
  "getVariableSource s =
     \<lparr>name = ''Session'', priority = sessionPriority s, get = SessionVariableSource_get s\<rparr>"

section \<open>ScriptSandbox\<close>

subsection \<open>RadiusContextImpl\<close>

text \<open>
  The environment object a context reads: the map given to the sandbox, or the live
  \<open>process.env\<close> of the host, which is the default of both constructors.
\<close>

datatype env_ref = SuppliedEnv "string \<Rightarrow> string option" | ProcessEnv

record RadiusContextImpl =
  contextVariables :: "(string \<times> jsval) list"
  envVars :: env_ref
  logs :: "string list"
  assertions :: "ExpectResult list"

definition RadiusContextImpl :: "env_ref \<Rightarrow> RadiusContextImpl" where
  "RadiusContextImpl e = \<lparr>contextVariables = [], envVars = e, logs = [], assertions = []\<rparr>"

definition getVariable :: "RadiusContextImpl \<Rightarrow> string \<Rightarrow> jsval" where
  "getVariable ctx nm = Map_get (contextVariables ctx) nm"

definition setVariable :: "RadiusContextImpl \<Rightarrow> string \<Rightarrow> jsval \<Rightarrow> RadiusContextImpl" where
  "setVariable ctx nm v = ctx\<lparr>contextVariables := Map_set (contextVariables ctx) nm v\<rparr>"

definition getEnv :: "host \<Rightarrow> RadiusContextImpl \<Rightarrow> string \<Rightarrow> string option" where
  "getEnv h ctx nm = (case envVars ctx of SuppliedEnv m \<Rightarrow> m nm | ProcessEnv \<Rightarrow> process_env h nm)"

definition uuid :: "host \<Rightarrow> string \<times> host" where
  "uuid h = replaceXY h ''xxxxxxxx-xxxx-4xxx-yxxx-xxxxxxxxxxxx''"

definition timestamp :: "host \<Rightarrow> int \<times> host" where
  "timestamp h = Date_now h"

text \<open>\<open>log\<close> pushes the joined line; the wrapper of \<open>expect\<close> pushes the matcher's result.\<close>

definition logLine :: "RadiusContextImpl \<Rightarrow> string \<Rightarrow> RadiusContextImpl" where
  "logLine ctx line = ctx\<lparr>logs := logs ctx @ [line]\<rparr>"

definition expect :: "RadiusContextImpl \<Rightarrow> ExpectResult \<Rightarrow> RadiusContextImpl" where
  "expect ctx res = ctx\<lparr>assertions := assertions ctx @ [res]\<rparr>"

definition getVariables :: "RadiusContextImpl \<Rightarrow> (string \<times> jsval) list" where
  "getVariables ctx = contextVariables ctx"

definition setVariables :: "RadiusContextImpl \<Rightarrow> (string \<times> jsval) list \<Rightarrow> RadiusContextImpl" where
  "setVariables ctx vars = ctx\<lparr>contextVariables := setEntries (contextVariables ctx) vars\<rparr>"

subsection \<open>The sandbox\<close>

record SandboxOptions =
  optTimeout :: "int option"
  optEnv :: "(string \<Rightarrow> string option) option"

record ScriptSandbox =
  sandboxTimeout :: int
  sandboxEnv :: env_ref
  sandboxContext :: RadiusContextImpl

definition ScriptSandbox :: "SandboxOptions \<Rightarrow> ScriptSandbox" where
  "ScriptSandbox opts =
     (let e = (case optEnv opts of None \<Rightarrow> ProcessEnv | Some m \<Rightarrow> SuppliedEnv m)
      in \<lparr>sandboxTimeout = (case optTimeout opts of None \<Rightarrow> 5000 | Some t \<Rightarrow> t),
          sandboxEnv = e,
          sandboxContext = RadiusContextImpl e\<rparr>)"

definition resetContext :: "ScriptSandbox \<Rightarrow> ScriptSandbox" where
  "resetContext sb = sb\<lparr>sandboxContext := RadiusContextImpl (sandboxEnv sb)\<rparr>"

definition sandbox_setVariables :: "ScriptSandbox \<Rightarrow> (string \<times> jsval) list \<Rightarrow> ScriptSandbox" where
  "sandbox_setVariables sb vars = sb\<lparr>sandboxContext := setVariables (sandboxContext sb) vars\<rparr>"

text \<open>The object passed to \<open>vm.createContext\<close>, property by property.\<close>

definition sandboxObject :: "ResponseContextImpl option \<Rightarrow> (string \<times> binding) list" where
  "sandboxObject response =
     [(''radius'', RadiusObject), (''console'', SafeConsole),
      (''JSON'', Builtin ''JSON''), (''Math'', Builtin ''Math''), (''Date'', Builtin ''Date''),
      (''Array'', Builtin ''Array''), (''Object'', Builtin ''Object''),
      (''String'', Builtin ''String''), (''Number'', Builtin ''Number''),
      (''Boolean'', Builtin ''Boolean''), (''RegExp'', Builtin ''RegExp''),
      (''Error'', Builtin ''Error''), (''TypeError'', Builtin ''TypeError''),
      (''RangeError'', Builtin ''RangeError''), (''parseInt'', Builtin ''parseInt''),
      (''parseFloat'', Builtin ''parseFloat''), (''isNaN'', Builtin ''isNaN''),
      (''isFinite'', Builtin ''isFinite''), (''encodeURI'', Builtin ''encodeURI''),
      (''decodeURI'', Builtin ''decodeURI''),
      (''encodeURIComponent'', Builtin ''encodeURIComponent''),
      (''decodeURIComponent'', Builtin ''decodeURIComponent''),
      (''undefined'', Undefined), (''NaN'', Builtin ''NaN''), (''Infinity'', Builtin ''Infinity''),
      (''process'', Undefined), (''require'', Undefined), (''module'', Undefined),
      (''exports'', Undefined), (''__dirname'', Undefined), (''__filename'', Undefined),
      (''global'', Undefined), (''globalThis'', Undefined), (''fetch'', Undefined),
      (''XMLHttpRequest'', Undefined), (''WebSocket'', Undefined), (''Buffer'', Undefined),
      (''setTimeout'', Undefined), (''setInterval'', Undefined), (''setImmediate'', Undefined),
      (''clearTimeout'', Undefined), (''clearInterval'', Undefined),
      (''clearImmediate'', Undefined)]
     @ (case response of None \<Rightarrow> [] | Some rc \<Rightarrow> [(''response'', ResponseObject rc)])"

text \<open>
  Running a script against the sandbox object, the context, the lines of this
  execution's \<open>safeConsole\<close> and the host. The first component of the result is
  \<open>None\<close> when the script ran to its end and the caught error's message otherwise.
\<close>

primrec runInContext ::
  "script \<Rightarrow> (string \<times> binding) list \<Rightarrow> RadiusContextImpl \<Rightarrow> string list \<Rightarrow> host \<Rightarrow>
   string option \<times> RadiusContextImpl \<times> string list \<times> host" where
  "runInContext Return sbx ctx consoleLogs h = (None, ctx, consoleLogs, h)"
| "runInContext (Throw msg) sbx ctx consoleLogs h = (Some msg, ctx, consoleLogs, h)"
| "runInContext (GetVariable nm k) sbx ctx consoleLogs h =
     runInContext (k (getVariable ctx nm)) sbx ctx consoleLogs h"
| "runInContext (SetVariable nm v k) sbx ctx consoleLogs h =
     runInContext k sbx (setVariable ctx nm v) consoleLogs h"
| "runInContext (GetEnv nm k) sbx ctx consoleLogs h =
     runInContext (k (getEnv h ctx nm)) sbx ctx consoleLogs h"
| "runInContext (Uuid k) sbx ctx consoleLogs h =
     runInContext (k (fst (uuid h))) sbx ctx consoleLogs (snd (uuid h))"
| "runInContext (Timestamp k) sbx ctx consoleLogs h =
     runInContext (k (fst (timestamp h))) sbx ctx consoleLogs (snd (timestamp h))"
| "runInContext (Log line k) sbx ctx consoleLogs h =
     runInContext k sbx (logLine ctx line) consoleLogs h"
| "runInContext (ConsoleLog line k) sbx ctx consoleLogs h =
     runInContext k sbx ctx (consoleLogs @ [line]) h"
| "runInContext (Expect res k) sbx ctx consoleLogs h =
     runInContext (k res) sbx (expect ctx res) consoleLogs h"
| "runInContext (Global nm k) sbx ctx consoleLogs h =
     runInContext (k (map_of sbx nm)) sbx ctx consoleLogs h"

record ScriptResult =
  success :: bool
  error :: "string option"
  resultLogs :: "string list"
  resultVariables :: "(string \<times> jsval) list"
  resultAssertions :: "ExpectResult list"

definition executeScript ::
  "ScriptSandbox \<Rightarrow> host \<Rightarrow> string \<Rightarrow> RadiusResponse option \<Rightarrow> ScriptResult \<times> ScriptSandbox \<times> host" where
  "executeScript sb h scriptText response =
     (case runInContext (vmScript h scriptText)
             (sandboxObject (map_option ResponseContextImpl response)) (sandboxContext sb) [] h of
        (err, ctx, consoleLogs, h1) \<Rightarrow>
          (\<lparr>success = (err = None),
            error = err,
            resultLogs = consoleLogs @ logs ctx,
            resultVariables = getVariables ctx,
            resultAssertions = assertions ctx\<rparr>,
           sb\<lparr>sandboxContext := ctx\<rparr>, h1))"

definition runPre :: "ScriptSandbox \<Rightarrow> host \<Rightarrow> string \<Rightarrow> ScriptResult \<times> ScriptSandbox \<times> host" where
  "runPre sb h scriptText = executeScript sb h scriptText None"

definition runPost ::
  "ScriptSandbox \<Rightarrow> host \<Rightarrow> string \<Rightarrow> RadiusResponse \<Rightarrow> ScriptResult \<times> ScriptSandbox \<times> host" where
  "runPost sb h scriptText response = executeScript sb h scriptText (Some response)"

section \<open>RequestRunner\<close>

record RunnerOptions =
  projectRoot :: "string option"
  envPath :: "string option"
  httpTimeout :: "int option"
  scriptTimeout :: "int option"
  variableSources :: "IVariableSource list option"

text \<open>
  The runner owns its sandbox and holds the session it was given. Its resolver is
  rebuilt from the same sources by the constructor and by \<open>setSession\<close>; two of the
  sources read the host and the session source reads the session, so the model builds
  the resolver (\<open>resolverOf\<close>) where it is used.
\<close>

record RequestRunner =
  runnerOptions :: RunnerOptions
  sandbox :: ScriptSandbox
  session :: "SessionManager option"

definition buildVariableSources :: "host \<Rightarrow> RunnerOptions \<Rightarrow> IVariableSource list" where
  "buildVariableSources h opts =
     (case variableSources opts of None \<Rightarrow> [] | Some srcs \<Rightarrow> srcs)
     @ [\<lparr>name = ''DotEnv'', priority = 200,
         get = dotenv h (case envPath opts of
                           None \<Rightarrow> ''.env''
                         | Some p \<Rightarrow> if p \<noteq> [] then p else ''.env'')\<rparr>,
        \<lparr>name = ''SystemEnv'', priority = 100, get = process_env h\<rparr>]"

definition RequestRunner :: "RunnerOptions \<Rightarrow> RequestRunner" where
  "RequestRunner opts =
     \<lparr>runnerOptions = opts,
      sandbox = ScriptSandbox \<lparr>optTimeout = scriptTimeout opts, optEnv = None\<rparr>,
      session = None\<rparr>"


definition resolverOf :: "RequestRunner \<Rightarrow> host \<Rightarrow> VariableResolver" where
  "resolverOf r h =
     VariableResolver
       ((case session r of None \<Rightarrow> [] | Some s \<Rightarrow> [getVariableSource s])
        @ buildVariableSources h (runnerOptions r))
       \<lparr>strict = Some False, maxDepth = None\<rparr>"

definition createErrorResponse :: "string \<Rightarrow> jsval \<Rightarrow> jsval \<Rightarrow> RadiusResponse" where
  "createErrorResponse msg meth url =
     \<lparr>status = 0, statusText = ''Error'', headers = [], body = msg, json = JNull,
      timing = JObj [(''total'', JNum 0)],
      request = JObj [(''method'', meth), (''url'', url), (''headers'', JObj [])],
      scriptLogs = None, assertionResults = None\<rparr>"

definition HttpClient_execute :: "host \<Rightarrow> jsval \<Rightarrow> RadiusResponse \<times> host" where
  "HttpClient_execute h resolved = (http h (length (sent h)) resolved, h\<lparr>sent := sent h @ [resolved]\<rparr>)"

definition console_warn :: "host \<Rightarrow> string \<Rightarrow> host" where
  "console_warn h line = h\<lparr>warnings := warnings h @ [line]\<rparr>"

text \<open>\<open>if (this.session && Object.keys(vars).length > 0) this.session.merge(vars)\<close>.\<close>

definition persist :: "SessionManager option \<Rightarrow> (string \<times> jsval) list \<Rightarrow> SessionManager option" where
  "persist sess vars =
     (case sess of
        None \<Rightarrow> None
      | Some s \<Rightarrow> if length vars > 0 then Some (merge s vars) else Some s)"

text \<open>The template literal \<open>${result.error}\<close>.\<close>

definition errorText :: "string option \<Rightarrow> string" where
  "errorText e = (case e of None \<Rightarrow> ''undefined'' | Some msg \<Rightarrow> msg)"

text \<open>
  Step 2 of \<open>execute\<close>: \<open>Inl\<close> is the early \<open>return\<close> of the error response,
  \<open>Inr\<close> the state with which \<open>execute\<close> goes on.
\<close>

definition preScriptStep ::
  "jsval \<Rightarrow> ScriptSandbox \<Rightarrow> SessionManager option \<Rightarrow> host \<Rightarrow>
   (RadiusResponse \<times> ScriptSandbox \<times> host) + (ScriptSandbox \<times> SessionManager option \<times> host)" where
  "preScriptStep resolved sb sess h =
     (let pre = getProp (getProp resolved ''scripts'') ''pre'' in
      if truthy pre then
        (case runPre sb h (js_String pre) of
           (preResult, sb1, h1) \<Rightarrow>
             if \<not> success preResult then
               Inl (createErrorResponse (''Pre-script error: '' @ errorText (error preResult))
                      (getProp (getProp resolved ''request'') ''method'')
                      (getProp (getProp resolved ''request'') ''url''),
                    sb1, h1)
             else Inr (sb1, persist sess (resultVariables preResult), h1))
      else Inr (sb, sess, h))"

text \<open>Step 4 of \<open>execute\<close>, on the response of the transport.\<close>

definition postScriptStep ::
  "jsval \<Rightarrow> RadiusResponse \<Rightarrow> ScriptSandbox \<Rightarrow> SessionManager option \<Rightarrow> host \<Rightarrow>
   RadiusResponse \<times> ScriptSandbox \<times> SessionManager option \<times> host" where
  "postScriptStep resolved response sb sess h =
     (let post = getProp (getProp resolved ''scripts'') ''post'' in
      if truthy post then
        (case runPost sb h (js_String post) response of
           (postResult, sb1, h1) \<Rightarrow>
             (let h2 = (if \<not> success postResult
                        then console_warn h1 (''Post-script error: '' @ errorText (error postResult))
                        else h1);
                  sess1 = persist sess (resultVariables postResult);
                  response1 = (if length (resultLogs postResult) > 0
                               then response\<lparr>scriptLogs := Some (resultLogs postResult)\<rparr>
                               else response);
                  response2 = (if length (resultAssertions postResult) > 0
                               then response1\<lparr>assertionResults := Some (resultAssertions postResult)\<rparr>
                               else response1)
              in (response2, sb1, sess1, h2)))
      else (response, sb, sess, h))"

text \<open>
  \<open>execute\<close>. Its first two statements (\<open>prepareSandbox\<close>) reset the context and
  seed it with the session's variables. A request is a value of the shape
  \<open>RadiusRequest\<close> that the parser validated, so \<open>resolved.request\<close> is an object and
  reading its \<open>method\<close> and \<open>url\<close> does not throw. \<open>Inl\<close> is an error thrown by the
  resolver.
\<close>

definition prepareSandbox :: "RequestRunner \<Rightarrow> ScriptSandbox" where
  "prepareSandbox r =
     (let sb0 = resetContext (sandbox r)
      in case session r of None \<Rightarrow> sb0 | Some s \<Rightarrow> sandbox_setVariables sb0 (getAll s))"

definition execute ::
  "RequestRunner \<Rightarrow> host \<Rightarrow> jsval \<Rightarrow> error + RadiusResponse \<times> RequestRunner \<times> host" where
  "execute r h req =
     (let sb1 = prepareSandbox r
      in case resolveObject (resolverOf r h) h req of
           Inl e \<Rightarrow> Inl e
         | Inr (resolved, h1) \<Rightarrow>
             (case preScriptStep resolved sb1 (session r) h1 of
                Inl (errorResponse, sb2, h2) \<Rightarrow> Inr (errorResponse, r\<lparr>sandbox := sb2\<rparr>, h2)
              | Inr (sb2, sess2, h2) \<Rightarrow>
                  (case HttpClient_execute h2 resolved of
                     (response, h3) \<Rightarrow>
                       (case postScriptStep resolved response sb2 sess2 h3 of
                          (response', sb3, sess3, h4) \<Rightarrow>
                            Inr (response', r\<lparr>sandbox := sb3, session := sess3\<rparr>, h4)))))"

section \<open>Notions used in the statements\<close>

text \<open>
  \<open>onlyDraws h h'\<close>: between \<open>h\<close> and \<open>h'\<close> the host has at most advanced its counters
  of random numbers and clock readings; nothing was sent and nothing was logged.
\<close>

definition onlyDraws :: "host \<Rightarrow> host \<Rightarrow> bool" where
  "onlyDraws h h' \<longleftrightarrow>
     random h' = random h \<and> now h' = now h \<and> toISOString h' = toISOString h \<and>
     process_env h' = process_env h \<and> dotenv h' = dotenv h \<and> vmScript h' = vmScript h \<and>
     http h' = http h \<and> sent h' = sent h \<and> warnings h' = warnings h"

text \<open>The response, runner and host that a call of \<open>execute\<close> returned, if it returned.\<close>

definition responseOf :: "error + RadiusResponse \<times> RequestRunner \<times> host \<Rightarrow> RadiusResponse option" where
  "responseOf res = (case res of Inl e \<Rightarrow> None | Inr (response, r, h) \<Rightarrow> Some response)"


definition hostOf :: "error + RadiusResponse \<times> RequestRunner \<times> host \<Rightarrow> host option" where
  "hostOf res = (case res of Inl e \<Rightarrow> None | Inr (response, r, h) \<Rightarrow> Some h)"








text \<open>
  A match of the template is unresolved when its trimmed name is not the name of a
  built-in that \<open>resolveBuiltin\<close> knows and no source defines it; \<open>unresolvedNames\<close>
  are the trimmed names of the unresolved matches, one for each match, in the order of
  the matches.
\<close>

definition resolvesAsBuiltin :: "string \<Rightarrow> bool" where
  "resolvesAsBuiltin varName =
     (case matchBuiltin varName of
        None \<Rightarrow> False
      | Some b \<Rightarrow> toLowerCase b \<in> set [''uuid'', ''timestamp'', ''isodate'', ''randomint''])"



text \<open>
  Chains and cycles of indirection. A plain name is one that the loop body looks up as
  it stands. \<open>chain R [a, b, c] lit\<close>: the value of \<open>a\<close> is \<open>{{b}}\<close>, that of \<open>b\<close> is
  \<open>{{c}}\<close>, and that of \<open>c\<close> is \<open>lit\<close>, which holds no placeholder. \<open>cycle R ns\<close>: the
  value of every name of \<open>ns\<close> is the placeholder of a name of \<open>ns\<close>.
  \<open>substituted ns lit\<close> is what the nested calls of \<open>replace\<close> make of \<open>lit\<close>, one call
  for each name of the chain.
\<close>

definition plainName :: "string \<Rightarrow> bool" where
  "plainName n \<longleftrightarrow> n \<noteq> [] \<and> CHR ''}'' \<notin> set n \<and> trim n = n \<and> \<not> resolvesAsBuiltin n"

fun chain :: "VariableResolver \<Rightarrow> string list \<Rightarrow> string \<Rightarrow> bool" where
  "chain R [] lit = False"
| "chain R [n] lit = (plainName n \<and> lookup R n = Some lit \<and> \<not> hasVariables lit)"
| "chain R (n # m # ns) lit =
     (plainName n \<and> lookup R n = Some (''{{'' @ m @ ''}}'') \<and> chain R (m # ns) lit)"

definition cycle :: "VariableResolver \<Rightarrow> string list \<Rightarrow> bool" where
  "cycle R ns \<longleftrightarrow>
     list_all (\<lambda>n. plainName n \<and> list_ex (\<lambda>m. lookup R n = Some (''{{'' @ m @ ''}}'')) ns) ns"

definition substituted :: "string list \<Rightarrow> string \<Rightarrow> string" where
  "substituted ns lit = foldr (\<lambda>n s. getSubstitution (''{{'' @ n @ ''}}'') [] [] s) ns lit"

section \<open>A scenario for the examples\<close>

text \<open>
  A host whose random numbers are all one half, whose network answers every request
  with status 200, and whose script engine is given; a runner built with no options; a
  \<open>GET\<close> request with given scripts.
\<close>

definition okResponse :: "jsval \<Rightarrow> RadiusResponse" where
  "okResponse req =
     \<lparr>status = 200, statusText = ''OK'', headers = [(''content-type'', ''application/json'')],
      body = ''[1]'', json = JArr [JNum 1],
      timing = JObj [(''total'', JNum 150)],
      request = JObj [(''method'', getProp (getProp req ''request'') ''method''),
                      (''url'', getProp (getProp req ''request'') ''url''),
                      (''headers'', JObj [])],
      scriptLogs = None, assertionResults = None\<rparr>"

definition exampleHost :: "(string \<Rightarrow> script) \<Rightarrow> host" where
  "exampleHost vm =
     \<lparr>random = (\<lambda>i. 1 / 2), randomCalls = 0,
      now = (\<lambda>i. 1700000000000 + int i), clockReads = 0,
      toISOString = (\<lambda>t. ''2023-11-14T22:13:20.000Z''),
      process_env = [''HOME'' \<mapsto> ''/root''],
      dotenv = (\<lambda>path. Map.empty),
      vmScript = vm,
      http = (\<lambda>i. okResponse),
      sent = [], warnings = []\<rparr>"

definition exampleRunner :: RequestRunner where
  "exampleRunner =
     RequestRunner \<lparr>projectRoot = None, envPath = None, httpTimeout = None,
                    scriptTimeout = None, variableSources = None\<rparr>"

definition exampleRequest :: "string \<Rightarrow> (string \<times> jsval) list \<Rightarrow> jsval" where
  "exampleRequest url scripts =
     JObj [(''meta'', JObj [(''name'', JStr ''Health''), (''type'', JStr ''REST''),
                            (''version'', JNum 1)]),
           (''request'', JObj [(''method'', JStr ''GET''), (''url'', JStr url)]),
           (''scripts'', JObj scripts)]"

text \<open>A script engine whose every script throws, with the message \<open>boom\<close>.\<close>

definition throwing :: "string \<Rightarrow> script" where
  "throwing text = Throw ''boom''"









text \<open>A resolver with a chain of three names that ends in a value with two dollar signs.\<close>

definition dollarChain :: VariableResolver where
  "dollarChain =
     VariableResolver
       [\<lparr>name = ''DotEnv'', priority = 200,
         get = [''a'' \<mapsto> ''{{b}}'', ''b'' \<mapsto> ''{{c}}'', ''c'' \<mapsto> ''pa$$word'']\<rparr>]
       \<lparr>strict = None, maxDepth = None\<rparr>"

lemmas resolve_eval =
  resolve_def resolveWithInfo.simps matchHere_def processMatch_def tryBuiltin_def
  trim_def isWhiteSpace_def matchBuiltin_def lookup_def lookupName_def hasVariables_def
  js_replace_def

lemmas runner_eval =
  exampleRunner_def exampleHost_def exampleRequest_def RequestRunner_def ScriptSandbox_def
  resolverOf_def buildVariableSources_def VariableResolver_def prepareSandbox_def
  resetContext_def RadiusContextImpl_def getProp_def


section \<open>Source priority (C1)\<close>






section \<open>Decimal text\<close>







section \<open>The session as a source (C10)\<close>



section \<open>What resolution and scripts do to the host\<close>

lemma onlyDraws_refl [simp]: "onlyDraws h h"
  by (simp add: onlyDraws_def)

lemma onlyDraws_trans: "onlyDraws h h1 \<Longrightarrow> onlyDraws h1 h2 \<Longrightarrow> onlyDraws h h2"
  by (simp add: onlyDraws_def)

lemma onlyDraws_Math_random: "onlyDraws h (snd (Math_random h))"
  by (simp add: onlyDraws_def Math_random_def)

lemma onlyDraws_Date_now: "onlyDraws h (snd (Date_now h))"
  by (simp add: onlyDraws_def Date_now_def)

lemma onlyDraws_replaceXY: "onlyDraws h (snd (replaceXY h cs))"
proof (induction cs arbitrary: h)
  case Nil
  then show ?case by simp
next
  case (Cons c cs)
  show ?case
  proof (cases "c = CHR ''x'' \<or> c = CHR ''y''")
    case True
    have "onlyDraws h (snd (Math_random h))" by (rule onlyDraws_Math_random)
    moreover have "onlyDraws (snd (Math_random h)) (snd (replaceXY (snd (Math_random h)) cs))"
      by (rule Cons.IH)
    ultimately have "onlyDraws h (snd (replaceXY (snd (Math_random h)) cs))"
      by (rule onlyDraws_trans)
    with True show ?thesis by (auto simp add: Let_def split: prod.splits)
  next
    case False
    with Cons.IH [of h] show ?thesis by (auto simp add: Let_def split: prod.splits)
  qed
qed

lemma onlyDraws_generateUuid: "onlyDraws h (snd (generateUuid h))"
  unfolding generateUuid_def by (rule onlyDraws_replaceXY)

lemma onlyDraws_uuid: "onlyDraws h (snd (uuid h))"
  unfolding uuid_def by (rule onlyDraws_replaceXY)

lemma onlyDraws_resolveBuiltin: "onlyDraws h (snd (resolveBuiltin h b))"
  using onlyDraws_generateUuid [of h] onlyDraws_Date_now [of h] onlyDraws_Math_random [of h]
  by (auto simp: resolveBuiltin_def Let_def split: prod.splits)


lemma onlyDraws_tryBuiltin: "onlyDraws h (snd (tryBuiltin h nm))"
  by (simp add: tryBuiltin_def onlyDraws_resolveBuiltin split: option.splits)

lemma onlyDraws_processMatch:
  assumes nested: "\<And>h0 v r h1. nested h0 v = Inr (r, h1) \<Longrightarrow> onlyDraws h0 h1"
    and step: "processMatch nested R m (result, unres, h) = Inr (result', unres', h')"
  shows "onlyDraws h h'"
proof -
  obtain fullMatch group1 where m: "m = (fullMatch, group1)" by (cases m)
  obtain bv h1 where t: "tryBuiltin h (trim group1) = (bv, h1)" by (cases "tryBuiltin h (trim group1)")
  then have h1: "onlyDraws h h1" using onlyDraws_tryBuiltin [of h "trim group1"] by simp
  have "h' = h1 \<or> (\<exists>v nr. nested h1 v = Inr (nr, h'))"
    using step t unfolding m processMatch_def
    by (auto simp add: Let_def split: option.splits if_splits sum.splits)
  then show ?thesis
    using h1 nested by (auto intro: onlyDraws_trans)
qed

lemma onlyDraws_processMatches:
  assumes nested: "\<And>h0 v r h1. nested h0 v = Inr (r, h1) \<Longrightarrow> onlyDraws h0 h1"
  shows "processMatches nested R ms (result, unres, h) = Inr (result', unres', h') \<Longrightarrow> onlyDraws h h'"
proof (induction ms arbitrary: result unres h)
  case Nil
  then show ?case by simp
next
  case (Cons m ms)
  then obtain r1 u1 h1 where
    1: "processMatch nested R m (result, unres, h) = Inr (r1, u1, h1)" and
    2: "processMatches nested R ms (r1, u1, h1) = Inr (result', unres', h')"
    by (auto split: sum.splits)
  from nested 1 have "onlyDraws h h1" by (rule onlyDraws_processMatch)
  moreover from 2 have "onlyDraws h1 h'" by (rule Cons.IH)
  ultimately show ?case by (rule onlyDraws_trans)
qed

lemma onlyDraws_resolveWithInfo:
  "resolveWithInfo R h template depth = Inr (res, h') \<Longrightarrow> onlyDraws h h'"
proof (induction R h template depth arbitrary: res h' rule: resolveWithInfo.induct)
  case (1 R h template depth)
  from "1.prems" have d: "\<not> int depth > maxDepth' (options R)"
    by (subst (asm) resolveWithInfo.simps) (simp split: if_splits)
  from "1.prems" d obtain result unres where
    pm: "processMatches (\<lambda>h' v. resolveWithInfo R h' v (depth + 1)) R (matchAll template)
           (template, [], h) = Inr (result, unres, h')"
    by (subst (asm) resolveWithInfo.simps) (auto split: sum.splits)
  show ?case
    by (rule onlyDraws_processMatches [OF _ pm]) (rule "1.IH" [OF d])
qed

lemma onlyDraws_resolve: "resolve R h template = Inr (s, h') \<Longrightarrow> onlyDraws h h'"
  by (auto simp: resolve_def split: sum.splits if_splits dest: onlyDraws_resolveWithInfo)

lemma onlyDraws_resolveObject:
  "resolveObject R h v = Inr (v', h') \<Longrightarrow> onlyDraws h h'"
  "resolveItems R h xs = Inr (xs', h') \<Longrightarrow> onlyDraws h h'"
  "resolveEntries R h es = Inr (es', h') \<Longrightarrow> onlyDraws h h'"
proof (induction R h v and R h xs and R h es arbitrary: v' h' and xs' h' and es' h'
       rule: resolveObject_resolveItems_resolveEntries.induct)
  case (3 R h s)
  then show ?case by (auto split: sum.splits dest: onlyDraws_resolve)
next
  case (9 R h x xs)
  then show ?case by (fastforce split: sum.splits intro: onlyDraws_trans)
next
  case (11 R h k v es)
  then show ?case by (fastforce split: sum.splits intro: onlyDraws_trans)
qed (auto split: sum.splits)


lemma onlyDraws_runInContext:
  "runInContext sc sbx ctx cl h = (err, ctx', cl', h') \<Longrightarrow> onlyDraws h h'"
proof (induction sc arbitrary: ctx cl h)
  case (Uuid k)
  have "onlyDraws h (snd (uuid h))" by (rule onlyDraws_uuid)
  moreover have "onlyDraws (snd (uuid h)) h'"
    using Uuid.prems by (auto intro: Uuid.IH [OF rangeI])
  ultimately show ?case by (rule onlyDraws_trans)
next
  case (Timestamp k)
  have "onlyDraws h (snd (timestamp h))" by (simp add: timestamp_def onlyDraws_Date_now)
  moreover have "onlyDraws (snd (timestamp h)) h'"
    using Timestamp.prems by (auto intro: Timestamp.IH [OF rangeI])
  ultimately show ?case by (rule onlyDraws_trans)
qed (simp_all, blast+)

lemma executeScript_outcome:
  assumes "executeScript sb h text response = (res, sb', h')"
  shows "onlyDraws h h' \<and> (success res \<longleftrightarrow> error res = None)"
  using assms
  by (auto simp: executeScript_def split: prod.splits dest: onlyDraws_runInContext)

section \<open>Pre-script failure (C5)\<close>

text \<open>
  C5. When the pre-script of the resolved request exists and its execution fails,
  \<open>execute\<close> returns a response with status 0, status text \<open>Error\<close> and, as body, the
  failure message \<open>Pre-script error: \<close> followed by the message of the script's error;
  the list of requests passed to the transport is what it was before the call.
\<close>

theorem pre_script_failure_error_response:
  assumes res: "resolveObject (resolverOf r h) h req = Inr (resolved, h1)"
    and pre: "truthy (getProp (getProp resolved ''scripts'') ''pre'')"
    and run: "runPre (prepareSandbox r) h1
                (js_String (getProp (getProp resolved ''scripts'') ''pre'')) = (preResult, sb2, h2)"
    and fail: "\<not> success preResult"
  shows "\<exists>resp msg. execute r h req = Inr (resp, r\<lparr>sandbox := sb2\<rparr>, h2) \<and>
           error preResult = Some msg \<and>
           status resp = 0 \<and> statusText resp = ''Error'' \<and>
           body resp = ''Pre-script error: '' @ msg \<and>
           sent h2 = sent h"
proof -
  from run have o: "onlyDraws h1 h2" and s: "success preResult \<longleftrightarrow> error preResult = None"
    using executeScript_outcome unfolding runPre_def by blast+
  from s fail obtain msg where msg: "error preResult = Some msg" by auto
  from res have "onlyDraws h h1" by (rule onlyDraws_resolveObject)
  with o have "sent h2 = sent h" by (simp add: onlyDraws_def)
  moreover have "execute r h req =
      Inr (createErrorResponse (''Pre-script error: '' @ msg)
             (getProp (getProp resolved ''request'') ''method'')
             (getProp (getProp resolved ''request'') ''url''), r\<lparr>sandbox := sb2\<rparr>, h2)"
    using res pre run fail msg
    by (simp add: execute_def preScriptStep_def Let_def errorText_def)
  ultimately show ?thesis
    using msg by (simp add: createErrorResponse_def)
qed


lemma example_resolves:
  "resolveObject (resolverOf exampleRunner (exampleHost vm)) (exampleHost vm)
       (exampleRequest ''https://api.example.com/health'' [(which, JStr ''radius.log(1)'')])
     = Inr (exampleRequest ''https://api.example.com/health'' [(which, JStr ''radius.log(1)'')],
            exampleHost vm)"
  by (simp add: runner_eval resolve_eval)

theorem pre_script_failure_error_response_witness:
  "map_option (\<lambda>resp. (status resp, statusText resp, body resp))
     (responseOf (execute exampleRunner (exampleHost throwing)
        (exampleRequest ''https://api.example.com/health'' [(''pre'', JStr ''radius.log(1)'')])))
     = Some (0, ''Error'', ''Pre-script error: boom'') \<and>
   map_option sent
     (hostOf (execute exampleRunner (exampleHost throwing)
        (exampleRequest ''https://api.example.com/health'' [(''pre'', JStr ''radius.log(1)'')])))
     = Some []"
proof -
  let ?h = "exampleHost throwing"
  let ?req = "exampleRequest ''https://api.example.com/health'' [(''pre'', JStr ''radius.log(1)'')]"
  have res: "resolveObject (resolverOf exampleRunner ?h) ?h ?req = Inr (?req, ?h)"
    by (rule example_resolves)
  have pre: "truthy (getProp (getProp ?req ''scripts'') ''pre'')"
    by (simp add: exampleRequest_def getProp_def)
  obtain preResult sb2 h2 where
    run: "runPre (prepareSandbox exampleRunner) ?h
            (js_String (getProp (getProp ?req ''scripts'') ''pre'')) = (preResult, sb2, h2)"
    by (cases "runPre (prepareSandbox exampleRunner) ?h
            (js_String (getProp (getProp ?req ''scripts'') ''pre''))") auto
  then have e: "error preResult = Some ''boom''" and f: "\<not> success preResult"
    by (auto simp add: runPre_def executeScript_def exampleHost_def throwing_def)
  from pre_script_failure_error_response [OF res pre run f] e
  show ?thesis by (auto simp: exampleHost_def responseOf_def hostOf_def)
qed

section \<open>Post-script failure (C6)\<close>






section \<open>The assertion list of a response (C7)\<close>








section \<open>Resolution comes before the pre-script (C8)\<close>

















section \<open>Built-in variables (C9)\<close>








lemma getSubstitution_plain:
  "CHR ''$'' \<notin> set repl \<Longrightarrow> getSubstitution matched preceding following repl = repl"
  by (induction matched preceding following repl rule: getSubstitution.induct) auto

lemma startsWith_append: "startsWith (pat @ rest) pat"
  by (induction pat) auto







lemma matchHere_single:
  assumes "CHR ''}'' \<notin> set g" and "g \<noteq> []"
  shows "matchHere (''{{'' @ g @ ''}}'' @ rest) = Some (g, rest)"
proof -
  have g: "\<And>x. x \<in> set g \<Longrightarrow> x \<noteq> CHR ''}''" using assms(1) by auto
  have "takeWhile (\<lambda>c. c \<noteq> CHR ''}'') (g @ ''}}'' @ rest) = g"
    using g by (simp add: takeWhile_append2)
  moreover have "dropWhile (\<lambda>c. c \<noteq> CHR ''}'') (g @ ''}}'' @ rest) = ''}}'' @ rest"
    using g by (simp add: dropWhile_append2)
  ultimately show ?thesis
    using assms(2) by (simp add: matchHere_def)
qed

lemma matchAll_placeholder:
  assumes "CHR ''}'' \<notin> set g" and "g \<noteq> []"
  shows "matchAll (''{{'' @ g @ ''}}'' @ rest) = (''{{'' @ g @ ''}}'', g) # matchAll rest"
  using matchHere_single [OF assms, of rest] by simp











section \<open>The environment a script reads (C4)\<close>









section \<open>Unresolved placeholders (C2)\<close>

lemma resolveBuiltin_Some:
  "fst (resolveBuiltin h b) \<noteq> None \<longleftrightarrow>
     toLowerCase b \<in> set [''uuid'', ''timestamp'', ''isodate'', ''randomint'']"
  by (auto simp: resolveBuiltin_def Let_def split: prod.splits)

lemma resolveBuiltin_None: "fst (resolveBuiltin h b) = None \<Longrightarrow> snd (resolveBuiltin h b) = h"
  by (auto simp: resolveBuiltin_def Let_def split: prod.splits if_splits)

lemma tryBuiltin_cases:
  "(resolvesAsBuiltin nm \<longrightarrow> (\<exists>v. fst (tryBuiltin h nm) = Some v)) \<and>
   (\<not> resolvesAsBuiltin nm \<longrightarrow> tryBuiltin h nm = (None, h))"
proof (cases "matchBuiltin nm")
  case None
  then show ?thesis by (simp add: resolvesAsBuiltin_def tryBuiltin_def)
next
  case (Some b)
  show ?thesis
  proof (cases "toLowerCase b \<in> set [''uuid'', ''timestamp'', ''isodate'', ''randomint'']")
    case True
    then have "fst (resolveBuiltin h b) \<noteq> None" by (simp only: resolveBuiltin_Some)
    with Some True show ?thesis by (auto simp: resolvesAsBuiltin_def tryBuiltin_def)
  next
    case False
    then have n: "fst (resolveBuiltin h b) = None" using resolveBuiltin_Some [of h b] by blast
    then have "resolveBuiltin h b = (None, h)"
      using resolveBuiltin_None [OF n] by (cases "resolveBuiltin h b") simp
    with Some False show ?thesis by (simp add: resolvesAsBuiltin_def tryBuiltin_def)
  qed
qed







section \<open>Recursive resolution (C3)\<close>

text \<open>
  \<open>resolveWithInfo\<close> is a total function: its recursive call is made at a depth that
  is one larger and is guarded by the test against the maximal depth.
\<close>

lemma js_replace_whole: "s \<noteq> [] \<Longrightarrow> js_replace s s repl = getSubstitution s [] [] repl"
proof -
  assume "s \<noteq> []"
  then have "indexOf s s = Some 0"
    using startsWith_append [of s "[]"] by (cases s) auto
  then show ?thesis by (simp add: js_replace_def)
qed

lemma matchAll_one:
  assumes "plainName n"
  shows "matchAll (''{{'' @ n @ ''}}'') = [(''{{'' @ n @ ''}}'', n)]"
    and "hasVariables (''{{'' @ n @ ''}}'')"
proof -
  from assms have "CHR ''}'' \<notin> set n" "n \<noteq> []" by (simp_all add: plainName_def)
  from matchAll_placeholder [OF this, of "[]"]
  show "matchAll (''{{'' @ n @ ''}}'') = [(''{{'' @ n @ ''}}'', n)]" by simp
  then show "hasVariables (''{{'' @ n @ ''}}'')" by (simp add: hasVariables_def)
qed

lemma processMatch_plain:
  assumes "plainName n" and "lookup R n = Some v"
  shows "processMatch nested R (f, n) (result, unres, h) =
           (if hasVariables v then
              (case nested h v of
                 Inl e \<Rightarrow> Inl e
               | Inr (nestedResult, h2) \<Rightarrow>
                   Inr (js_replace result f (val nestedResult), unres @ unresolved nestedResult, h2))
            else Inr (js_replace result f v, unres, h))"
proof -
  from assms(1) have t: "trim n = n" and "\<not> resolvesAsBuiltin n" by (simp_all add: plainName_def)
  then have "tryBuiltin h n = (None, h)" using tryBuiltin_cases [of n h] by simp
  with t assms(2) show ?thesis by (simp add: processMatch_def)
qed

lemma chain_head: "chain R ns lit \<Longrightarrow> ns \<noteq> [] \<and> plainName (hd ns)"
  by (induction R ns lit rule: chain.induct) auto

lemma chain_resolves:
  "chain R ns lit \<Longrightarrow> int d + int (length ns) \<le> maxDepth' (options R) + 1 \<Longrightarrow>
     resolveWithInfo R h (''{{'' @ hd ns @ ''}}'') d
       = Inr (\<lparr>val = substituted ns lit, unresolved = []\<rparr>, h)"
proof (induction R ns lit arbitrary: d rule: chain.induct)
  case (1 R lit)
  then show ?case by simp
next
  case (2 R n lit)
  then have p: "plainName n" and l: "lookup R n = Some lit" and nv: "\<not> hasVariables lit"
    and d: "\<not> int d > maxDepth' (options R)"
    by auto
  from p have ne: "''{{'' @ n @ ''}}'' \<noteq> []" by simp
  show ?case
    using d nv
    by (simp add: resolveWithInfo.simps [of R h "''{{'' @ n @ ''}}''" d] matchAll_one [OF p]
          processMatch_plain [OF p l] js_replace_whole [OF ne] substituted_def
          del: append.simps)
next
  case (3 R n m ns lit)
  then have p: "plainName n" and l: "lookup R n = Some (''{{'' @ m @ ''}}'')"
    and c: "chain R (m # ns) lit" and d: "\<not> int d > maxDepth' (options R)"
    and d1: "int (d + 1) + int (length (m # ns)) \<le> maxDepth' (options R) + 1"
    by auto
  from chain_head [OF c] have pm: "plainName m" by simp
  have nested: "resolveWithInfo R h (''{{'' @ m @ ''}}'') (d + 1)
                  = Inr (\<lparr>val = substituted (m # ns) lit, unresolved = []\<rparr>, h)"
    using "3.IH" [OF c d1] by simp
  from p have ne: "''{{'' @ n @ ''}}'' \<noteq> []" by simp
  show ?case
    using d nested
    by (simp add: resolveWithInfo.simps [of R h "''{{'' @ n @ ''}}''" d] matchAll_one [OF p]
          processMatch_plain [OF p l] matchAll_one(2) [OF pm] js_replace_whole [OF ne]
          substituted_def del: append.simps)
qed

lemma substituted_plain: "CHR ''$'' \<notin> set lit \<Longrightarrow> substituted ns lit = lit"
  by (induction ns) (simp_all add: substituted_def getSubstitution_plain)

lemma cycle_throws:
  assumes "cycle R ns" and "n \<in> set ns"
  shows "resolveWithInfo R h (''{{'' @ n @ ''}}'') d = Inl (depthExceeded (maxDepth' (options R)))"
  using assms(2)
proof (induction "nat (maxDepth' (options R) + 1 - int d)" arbitrary: d n h)
  case 0
  then have "int d > maxDepth' (options R)" by simp
  then show ?case by (subst resolveWithInfo.simps) simp
next
  case (Suc k)
  then have d: "\<not> int d > maxDepth' (options R)"
    and k: "k = nat (maxDepth' (options R) + 1 - int (d + 1))" by auto
  from assms(1) Suc.prems obtain m where p: "plainName n" and m: "m \<in> set ns"
    and l: "lookup R n = Some (''{{'' @ m @ ''}}'')"
    by (auto simp: cycle_def list_all_iff list_ex_iff)
  from assms(1) m have pm: "plainName m" by (auto simp: cycle_def list_all_iff)
  have nested: "\<And>h. resolveWithInfo R h (''{{'' @ m @ ''}}'') (d + 1)
                  = Inl (depthExceeded (maxDepth' (options R)))"
    by (rule Suc.hyps(1) [OF k m])
  show ?case
    using d nested
    by (simp add: resolveWithInfo.simps [of R h "''{{'' @ n @ ''}}''" d] matchAll_one [OF p]
          processMatch_plain [OF p l] matchAll_one(2) [OF pm] del: append.simps)
qed


lemma depthExceeded_distinct:
  "depthExceeded d \<noteq> Error (''Unresolved variables: '' @ names)"
  by (simp add: depthExceeded_def)

lemma recursive_resolution:
  "(chain R ns lit \<and> int (length ns) \<le> maxDepth' (options R) + 1 \<longrightarrow>
      resolve R h (''{{'' @ hd ns @ ''}}'') = Inr (substituted ns lit, h)) \<and>
   (CHR ''$'' \<notin> set lit \<longrightarrow> substituted ns lit = lit) \<and>
   (cycle R ns \<and> n \<in> set ns \<longrightarrow>
      resolve R h (''{{'' @ n @ ''}}'') = Inl (depthExceeded (maxDepth' (options R))))"
proof -
  have "resolve R h (''{{'' @ hd ns @ ''}}'') = Inr (substituted ns lit, h)"
    if "chain R ns lit" "int (length ns) \<le> maxDepth' (options R) + 1"
    using chain_resolves [OF that(1), of 0 h] that(2) by (simp add: resolve_def)
  moreover have "resolve R h (''{{'' @ n @ ''}}'') = Inl (depthExceeded (maxDepth' (options R)))"
    if "cycle R ns" "n \<in> set ns"
    using cycle_throws [OF that, of h 0] by (simp add: resolve_def)
  ultimately show ?thesis by (simp add: substituted_plain)
qed

text \<open>
  C3 at a chain of three names whose last value is \<open>pa$$word\<close>: the call returns
  \<open>pa$word\<close>. \<open>String.prototype.replace\<close> reads \<open>$$\<close> in its replacement as one dollar
  sign, and \<open>resolveWithInfo\<close> passes the value as the replacement. By
  \<open>recursive_resolution\<close> this is the only way in which a chain within the depth
  fails to resolve to its literal, and every cycle ends with the depth-exceeded error.
\<close>

theorem chain_to_dollar_literal:
  "resolve dollarChain (exampleHost throwing) ''{{a}}'' = Inr (''pa$word'', exampleHost throwing)"
  by (simp add: dollarChain_def VariableResolver_def resolve_eval)


end
